theory Spec2Isabelle
  imports Main "HOL-Library.Sublist" "HOL-Library.AList"
begin

section \<open>Python strings as the program uses them\<close>

text \<open>
  Texts are \<^typ>\<open>string\<close>. The operations below are the ones of Python's \<^verbatim>\<open>str\<close> and
  \<^verbatim>\<open>re\<close> that \<^verbatim>\<open>models.py\<close> calls, each on the fixed pattern the source passes.
\<close>

definition nl :: char where
  "nl = CHR 0x0A"

text \<open>\<^verbatim>\<open>sub in s\<close> on two strings: \<^verbatim>\<open>sub\<close> occurs in \<^verbatim>\<open>s\<close> as a contiguous run.\<close>

fun py_in :: "string \<Rightarrow> string \<Rightarrow> bool" where
  "py_in sub [] = (sub = [])"
| "py_in sub (c # cs) = (prefix sub (c # cs) \<or> py_in sub cs)"

text \<open>\<^verbatim>\<open>sep.join(xs)\<close>.\<close>

fun str_join :: "string \<Rightarrow> string list \<Rightarrow> string" where
  "str_join sep [] = []"
| "str_join sep [x] = x"
| "str_join sep (x # y # ys) = x @ sep @ str_join sep (y # ys)"

text \<open>\<^verbatim>\<open>"{}".format(n)\<close> for an integer: its decimal numeral.\<close>

function digits_of :: "nat \<Rightarrow> string" where
  "digits_of n = (if n < 10 then [''0123456789'' ! n] else digits_of (n div 10) @ [''0123456789'' ! (n mod 10)])"
  by pat_completeness auto
termination
  by (relation "measure id") auto

declare digits_of.simps [simp del]

definition str_int :: "int \<Rightarrow> string" where
  "str_int i = (if i < 0 then CHR ''-'' # digits_of (nat (- i)) else digits_of (nat i))"

text \<open>The regular expression classes \<^verbatim>\<open>\d\<close> and \<^verbatim>\<open>\s\<close> on 8-bit characters.\<close>

definition is_digit :: "char \<Rightarrow> bool" where
  "is_digit c = (c \<in> set ''0123456789'')"

definition is_space :: "char \<Rightarrow> bool" where
  "is_space c = (c \<in> {CHR 0x09, CHR 0x0A, CHR 0x0B, CHR 0x0C, CHR 0x0D, CHR 0x1C, CHR 0x1D,
     CHR 0x1E, CHR 0x1F, CHR 0x20, CHR 0x85, CHR 0xA0})"

text \<open>\<^verbatim>\<open>int(ds)\<close> for a run of decimal digits.\<close>

definition digit_val :: "char \<Rightarrow> int" where
  "digit_val c = int (of_char c) - 48"

definition int_of_digits :: "string \<Rightarrow> int" where
  "int_of_digits ds = foldl (\<lambda>a c. 10 * a + digit_val c) 0 ds"

definition drop_line :: "string \<Rightarrow> string" where
  "drop_line s = dropWhile (\<lambda>c. c \<noteq> nl) s"

definition drop_nls :: "string \<Rightarrow> string" where
  "drop_nls s = dropWhile (\<lambda>c. c = nl) s"

section \<open>The text sanitizer\<close>

text \<open>
  \<^verbatim>\<open>needs_quoting\<close> (models.py, 345-358): the chain of \<^verbatim>\<open>or\<close> in the order of the source;
  \<^verbatim>\<open>txt.count("=")\<close> counts the occurrences of the one-character string.
\<close>

definition needs_quoting :: "string \<Rightarrow> string" where
  "needs_quoting txt =
     (if CHR ''#'' \<in> set txt \<or>
         CHR ''>'' \<in> set txt \<or>
         CHR ''_'' \<in> set txt \<or>
         CHR ''-'' \<in> set txt \<or>
         1 < count_list txt CHR ''='' \<or>
         CHR ''~'' \<in> set txt \<or>
         CHR ''|'' \<in> set txt \<or>
         CHR ''*'' \<in> set txt \<or>
         CHR ''+'' \<in> set txt \<or>
         CHR ''@'' \<in> set txt
      then ''<pre>'' @ txt @ ''</pre>''
      else txt)"

section \<open>The regular expressions of the reconciler\<close>

text \<open>
  What a Python expression evaluates to where the program relies on its truth value:
  \<^verbatim>\<open>False\<close>, an integer or a string. \<^verbatim>\<open>False\<close> is the integer 0 to Python
  (\<^verbatim>\<open>False == 0\<close>, and both are false in a condition).
\<close>

datatype py_value = PyFalse | PyInt int | PyStr string

fun truthy :: "py_value \<Rightarrow> bool" where
  "truthy PyFalse = False"
| "truthy (PyInt n) = (n \<noteq> 0)"
| "truthy (PyStr s) = (s \<noteq> [])"

fun int_of :: "py_value \<Rightarrow> int" where
  "int_of PyFalse = 0"
| "int_of (PyInt n) = n"
| "int_of (PyStr s) = 0"

fun py_format :: "py_value \<Rightarrow> string" where
  "py_format PyFalse = ''False''"
| "py_format (PyInt n) = str_int n"
| "py_format (PyStr s) = s"

text \<open>
  \<^verbatim>\<open>Attachment.parse_comment_text\<close> (models.py, 308-314). \<^verbatim>\<open>re.match\<close> anchors the pattern
  \<^verbatim>\<open>^Created an attachment \(id=(\d+)\).*$\<close> at the start of the text: the lead, a
  non-empty run of digits, a closing bracket; the rest of the line always matches
  \<^verbatim>\<open>.*$\<close>. The result is \<^verbatim>\<open>False\<close> or the integer the digits denote.
\<close>

definition parse_comment_text :: "string \<Rightarrow> py_value" where
  "parse_comment_text comment =
     (let lead = ''Created an attachment (id=''
      in if prefix lead comment
         then (let rest = drop (length lead) comment;
                   ds = takeWhile is_digit rest
               in if ds \<noteq> [] \<and> prefix '')'' (dropWhile is_digit rest)
                  then PyInt (int_of_digits ds) else PyFalse)
         else PyFalse)"

text \<open>
  \<^verbatim>\<open>re.sub("Created.*\(id=\d+\)(?:.*\n*){1,2}", "", txt, count=1)\<close> (models.py, 162-164).
  The pattern matches at a position when the text there starts with \<^verbatim>\<open>Created\<close> and
  the rest of that line holds \<^verbatim>\<open>(id=\<close>, digits and a closing bracket somewhere. Every
  such match ends at the same place, whichever bracket the backtracking settles on: the
  first \<^verbatim>\<open>.*\n*\<close> takes the rest of the line and the newlines after it, the second
  one the next line and the newlines after that. The leftmost match is removed.
\<close>

definition id_token_at :: "string \<Rightarrow> bool" where
  "id_token_at s =
     (prefix ''(id='' s \<and>
      (let r = drop 4 s in takeWhile is_digit r \<noteq> [] \<and> prefix '')'' (dropWhile is_digit r)))"

fun has_id_token :: "string \<Rightarrow> bool" where
  "has_id_token [] = False"
| "has_id_token (c # cs) = (id_token_at (c # cs) \<or> has_id_token cs)"

definition announcement_at :: "string \<Rightarrow> bool" where
  "announcement_at s =
     (prefix ''Created'' s \<and> has_id_token (takeWhile (\<lambda>c. c \<noteq> nl) (drop 7 s)))"

fun re_sub_announcement :: "string \<Rightarrow> string" where
  "re_sub_announcement [] = []"
| "re_sub_announcement (c # cs) =
     (if announcement_at (c # cs)
      then drop_nls (drop_line (drop_nls (drop_line (c # cs))))
      else c # re_sub_announcement cs)"

text \<open>
  \<^verbatim>\<open>re.split("\n*", s)\<close> (models.py, 127). The pattern matches the empty string, and what
  \<^verbatim>\<open>re.split\<close> does with an empty match depends on the interpreter. From Python 3.7 on
  an empty match splits: the search goes on from the end of the last match and, after an
  empty match, must advance by one character (the flag below). Before 3.7 empty matches
  are skipped and only the runs of newlines split. Both are modelled; the interpreter is a
  parameter of the environment.
\<close>

function re_split_nl :: "bool \<Rightarrow> string \<Rightarrow> string list" where
  "re_split_nl False s =
     [] # (if s \<noteq> [] \<and> hd s = nl then re_split_nl False (drop_nls s) else re_split_nl True s)"
| "re_split_nl True [] = [[]]"
| "re_split_nl True (c # s) =
     [c] # (if s \<noteq> [] \<and> hd s = nl then re_split_nl False (drop_nls s) else re_split_nl True s)"
  by pat_completeness auto
termination
proof (relation "measure (\<lambda>(b, s). 2 * length s + (if b then 0 else 1))", goal_cases)
  case 1
  show ?case by simp
next
  case (2 s)
  then obtain t where "s = nl # t" by (cases s) auto
  moreover have "length (dropWhile (\<lambda>c. c = nl) t) \<le> length t" by (rule length_dropWhile_le)
  ultimately show ?case by (simp add: drop_nls_def)
next
  case (3 s)
  then show ?case by simp
next
  case (4 c s)
  have "length (dropWhile (\<lambda>c. c = nl) s) \<le> length s" by (rule length_dropWhile_le)
  then show ?case by (simp add: drop_nls_def)
next
  case (5 c s)
  then show ?case by simp
qed

fun re_split_nl_legacy :: "bool \<Rightarrow> string \<Rightarrow> string \<Rightarrow> string list" where
  "re_split_nl_legacy in_run piece [] = [piece]"
| "re_split_nl_legacy in_run piece (c # cs) =
     (if c = nl
      then (if in_run then re_split_nl_legacy True piece cs
            else piece # re_split_nl_legacy True [] cs)
      else re_split_nl_legacy False (piece @ [c]) cs)"

text \<open>
  \<^verbatim>\<open>ext_description.rpartition("Submitter was ")\<close> (models.py, 185): the text after the
  last occurrence of the separator, when there is one. \<^verbatim>\<open>re.match(r"^(\S*)\s?.*$", ...)\<close>
  (188-189) always matches, and its group is the leading run of non-space characters.
\<close>

fun after_last :: "string \<Rightarrow> string \<Rightarrow> string option" where
  "after_last sep [] = (if sep = [] then Some [] else None)"
| "after_last sep (c # cs) =
     (case after_last sep cs of
        Some r \<Rightarrow> Some r
      | None \<Rightarrow> if prefix sep (c # cs) then Some (drop (length sep) (c # cs)) else None)"

definition first_token :: "string \<Rightarrow> string" where
  "first_token user_data = takeWhile (\<lambda>c. \<not> is_space c) user_data"

section \<open>Data: the bug record, the configuration, the objects\<close>

text \<open>
  A Python \<^verbatim>\<open>dict\<close> keeps its keys in insertion order and a store to a key that is
  present replaces the value where it stands: an association list under
  \<^const>\<open>AList.update\<close>, read with \<^const>\<open>map_of\<close>.
\<close>

type_synonym 'a dict = "(string \<times> 'a) list"

text \<open>
  Every \<^verbatim>\<open>raise\<close> of models.py and every failing subscript is a value of the type \<open>error\<close>;
  a failure of code outside models.py (the HTTP layer, the date parser) is \<open>External\<close>.
\<close>

datatype error =
    IndexError
  | KeyError string
  | TypeError
  | UserNotFound string
  | AttachmentMissing int string
  | MissingField string
  | AttributeError string
  | External string

text \<open>
  One entry of \<^verbatim>\<open>fields["long_desc"]\<close>. \<open>attachid\<close> is the key the reconciler adds
  (models.py, 166); \<open>None\<close> while the key is absent.
\<close>

record comment_fields =
  who :: string
  bug_when :: string
  thetext :: string
  attachid :: "int option"

text \<open>
  One entry of \<^verbatim>\<open>fields["attachment"]\<close>. \<open>a_attachid\<close> is the value of
  \<^verbatim>\<open>int(attachment["attachid"])\<close>, \<open>a_isobsolete\<close> the truth value of
  \<^verbatim>\<open>attachment["isobsolete"]\<close>.
\<close>

record attachment_fields =
  a_attachid :: int
  a_filename :: string
  a_isobsolete :: bool

text \<open>The bug record. The keys read with \<^verbatim>\<open>fields.get\<close> may be absent: \<open>None\<close>.\<close>

record bug_fields =
  bug_id :: string
  short_desc :: string
  reporter :: string
  assigned_to :: string
  bug_status :: string
  component :: string
  op_sys :: "string option"
  creation_ts :: string
  resolution :: "string option"
  delta_ts :: string
  version :: "string option"
  rep_platform :: "string option"
  long_desc :: "comment_fields list"
  attachment :: "attachment_fields list"

text \<open>The global \<^verbatim>\<open>conf\<close>: the attributes models.py reads.\<close>

record conf =
  default_headers :: "string dict"
  dry_run :: bool
  bugzilla_users :: "string \<rightharpoonup> string"
  gitlab_users :: "string \<rightharpoonup> string"
  gitlab_user_admins :: "string \<rightharpoonup> bool"
  gitlab_misc_user :: string
  bugzilla_auto_reporter :: string
  include_bugzilla_link :: bool
  bugzilla_base_url :: string
  gitlab_base_url :: string
  gitlab_project_id :: string
  datetime_format_string :: string
  default_gitlab_labels :: "string list"
  component_mappings :: "string \<rightharpoonup> string"

text \<open>
  One call of \<^verbatim>\<open>_perform_request\<close> with the arguments the call site passes; a keyword the
  call leaves out is \<open>None\<close>. The call log is the list of all calls made so far, in order.
\<close>

record request =
  req_url :: string
  req_method :: string
  req_headers :: "string dict"
  req_data :: "string dict"
  req_files :: "(string \<times> string) option"
  req_json :: "bool option"
  req_dry_run :: "bool option"

record response =
  content :: string
  json :: "py_value dict"

type_synonym log = "request list"

text \<open>
  What models.py is run in: the remote services (their answer to a request, given the
  requests they received before), the helpers of \<^verbatim>\<open>utils\<close> and of \<^verbatim>\<open>dateutil\<close> that
  are not part of models.py, taken as parameters, and the behaviour of \<^verbatim>\<open>re.split\<close> on
  empty matches (Python 3.7 or later).
\<close>

record env =
  backend :: "request list \<Rightarrow> request \<Rightarrow> string + response"
  markdown_table_row :: "string \<Rightarrow> string option \<Rightarrow> string"
  format_datetime :: "string \<Rightarrow> string \<Rightarrow> string + string"
  isoformat :: "string \<Rightarrow> string + string"
  empty_match_splits :: bool

definition re_split_newlines :: "env \<Rightarrow> string \<Rightarrow> string list" where
  "re_split_newlines e s =
     (if empty_match_splits e then re_split_nl False s else re_split_nl_legacy False [] s)"

text \<open>The objects models.py builds.\<close>

record attachment_obj =
  att_id :: int
  att_filename :: string
  att_headers :: "string dict"
  markdown :: py_value

record issue =
  i_headers :: "string dict"
  i_created_at :: string
  title :: string
  i_sudo :: string
  assignee_id :: string
  status :: string
  labels :: string
  description :: string
  i_attachments :: "(int \<times> attachment_obj) list"
  i_id :: "py_value option"
  iid :: "py_value option"

record comment =
  c_headers :: "string dict"
  c_attachments :: "(int \<times> attachment_obj) list"
  c_sudo :: string
  body :: string
  c_created_at :: string
  issue_id :: "py_value option"

record issue_thread =
  t_issue :: issue
  t_comments :: "comment list"

section \<open>The Backend Client\<close>

text \<open>
  Modelled from the spec: \<^verbatim>\<open>_perform_request\<close> of \<^verbatim>\<open>utils\<close>, which is not among the
  sources. The spec's Backend Client, in dry-run mode, returns deterministic synthetic
  identifiers and performs no network I/O; otherwise it calls the remote service, whose
  failure is fatal. A call is in dry-run mode when it passes \<^verbatim>\<open>dry_run=True\<close>; a call
  that passes no \<^verbatim>\<open>dry_run\<close> is an ordinary call. Every call is appended to the log;
  the network I/O of a log is its calls that were not dry runs.
\<close>

definition is_dry :: "request \<Rightarrow> bool" where
  "is_dry req = (req_dry_run req = Some True)"

definition network_io :: "log \<Rightarrow> request list" where
  "network_io l = filter (\<lambda>req. \<not> is_dry req) l"

definition synthetic :: response where
  "synthetic = \<lparr>content = [], json = []\<rparr>"

definition perform_request :: "env \<Rightarrow> request \<Rightarrow> log \<Rightarrow> (error + response) \<times> log" where
  "perform_request e req l =
     (if is_dry req then (Inr synthetic, l @ [req])
      else (case backend e (network_io l) req of
              Inl msg \<Rightarrow> (Inl (External msg), l @ [req])
            | Inr r \<Rightarrow> (Inr r, l @ [req])))"

text \<open>A subscript \<^verbatim>\<open>d[k]\<close> on a dict: \<^verbatim>\<open>KeyError\<close> when the key is absent.\<close>

definition subscript :: "'a dict \<Rightarrow> string \<Rightarrow> error + 'a" where
  "subscript d k = (case map_of d k of None \<Rightarrow> Inl (KeyError k) | Some v \<Rightarrow> Inr v)"

definition lookup :: "(string \<rightharpoonup> 'a) \<Rightarrow> string \<Rightarrow> error + 'a" where
  "lookup m k = (case m k of None \<Rightarrow> Inl (KeyError k) | Some v \<Rightarrow> Inr v)"

section \<open>Attachments\<close>

text \<open>
  \<^verbatim>\<open>Attachment.__upload_attachment\<close> (models.py, 316-329): the download from the bug
  tracker is called without \<^verbatim>\<open>dry_run\<close>, the upload with \<^verbatim>\<open>dry_run=conf.dry_run\<close>.
\<close>

definition download_request :: "conf \<Rightarrow> int \<Rightarrow> request" where
  "download_request c aid =
     \<lparr>req_url = bugzilla_base_url c @ ''/attachment.cgi?id='' @ str_int aid,
      req_method = ''get'', req_headers = [], req_data = [], req_files = None,
      req_json = Some False, req_dry_run = None\<rparr>"

definition upload_request :: "conf \<Rightarrow> string \<Rightarrow> string dict \<Rightarrow> string \<Rightarrow> request" where
  "upload_request c fname hdrs file_content =
     \<lparr>req_url = gitlab_base_url c @ ''/projects/'' @ gitlab_project_id c @ ''/uploads'',
      req_method = ''post'', req_headers = hdrs, req_data = [],
      req_files = Some (fname, file_content),
      req_json = Some True, req_dry_run = Some (dry_run c)\<rparr>"

definition upload_attachment ::
  "env \<Rightarrow> conf \<Rightarrow> int \<Rightarrow> string \<Rightarrow> string dict \<Rightarrow> log \<Rightarrow> (error + py_value) \<times> log" where
  "upload_attachment e c aid fname hdrs l =
     (case perform_request e (download_request c aid) l of
        (Inl err, l1) \<Rightarrow> (Inl err, l1)
      | (Inr result, l1) \<Rightarrow>
          (case perform_request e (upload_request c fname hdrs (content result)) l1 of
             (Inl err, l2) \<Rightarrow> (Inl err, l2)
           | (Inr att, l2) \<Rightarrow>
               if dry_run c then (Inr (PyStr (''[attachment]('' @ fname @ '')'')), l2)
               else (subscript (json att) ''markdown'', l2)))"

text \<open>\<^verbatim>\<open>Attachment.__init__\<close> (299-303) and \<^verbatim>\<open>__str__\<close> (305-306).\<close>

definition Attachment_init ::
  "env \<Rightarrow> conf \<Rightarrow> int \<Rightarrow> string \<Rightarrow> log \<Rightarrow> (error + attachment_obj) \<times> log" where
  "Attachment_init e c bugzilla_attachment_id fname l =
     (case upload_attachment e c bugzilla_attachment_id fname (default_headers c) l of
        (Inl err, l') \<Rightarrow> (Inl err, l')
      | (Inr m, l') \<Rightarrow>
          (Inr \<lparr>att_id = bugzilla_attachment_id, att_filename = fname,
                att_headers = default_headers c, markdown = m\<rparr>, l'))"

definition Attachment_str :: "attachment_obj \<Rightarrow> error + string" where
  "Attachment_str a = (case markdown a of PyStr s \<Rightarrow> Inr s | _ \<Rightarrow> Inl TypeError)"

section \<open>The attachment registry\<close>

text \<open>
  The three locals of the registry loop (models.py, 130-132): the dict
  \<^verbatim>\<open>attachments\<close>, the working list of names \<^verbatim>\<open>attachment_files\<close> and the list
  \<^verbatim>\<open>obsolete_attachments\<close>.
\<close>

record registry =
  attachments :: "(int \<times> attachment_obj) list"
  attachment_files :: "string list"
  obsolete_attachments :: "int list"

definition empty_registry :: registry where
  "empty_registry = \<lparr>attachments = [], attachment_files = [], obsolete_attachments = []\<rparr>"

text \<open>
  The duplicate check (models.py, 136-143), on the attachment's name and the working list:
  the name to register and the new working list. \<^verbatim>\<open>attachment["filename"] in x\<close> tests
  whether the name occurs inside the listed name \<^verbatim>\<open>x\<close>; \<^verbatim>\<open>list.remove\<close> removes the
  first equal element.
\<close>

definition disambiguate :: "string \<Rightarrow> string list \<Rightarrow> string \<times> string list" where
  "disambiguate fname files =
     (let matchs = filter (\<lambda>x. py_in fname x) files
      in if matchs \<noteq> [] \<and> length matchs < 2
         then (CHR ''x'' # hd matchs, remove1 (hd matchs) files @ [CHR ''x'' # hd matchs])
         else (fname, files @ [fname]))"

text \<open>
  The body of the loop (134-146). The new name is also stored back into the raw
  attachment, which nothing reads afterwards.
\<close>

definition register_attachment ::
  "env \<Rightarrow> conf \<Rightarrow> attachment_fields \<Rightarrow> registry \<Rightarrow> log \<Rightarrow> (error + registry) \<times> log" where
  "register_attachment e c a st l =
     (if \<not> a_isobsolete a
      then (case disambiguate (a_filename a) (attachment_files st) of
              (fname, files') \<Rightarrow>
                (case Attachment_init e c (a_attachid a) fname l of
                   (Inl err, l') \<Rightarrow> (Inl err, l')
                 | (Inr att, l') \<Rightarrow>
                     (Inr (st\<lparr>attachments := AList.update (a_attachid a) att (attachments st),
                              attachment_files := files'\<rparr>), l')))
      else (Inr (st\<lparr>obsolete_attachments := obsolete_attachments st @ [a_attachid a]\<rparr>), l))"

text \<open>The loop over \<^verbatim>\<open>fields["attachment"]\<close> in order; the first failure ends it.\<close>

fun build_registry ::
  "env \<Rightarrow> conf \<Rightarrow> attachment_fields list \<Rightarrow> registry \<Rightarrow> log \<Rightarrow> (error + registry) \<times> log" where
  "build_registry e c [] st l = (Inr st, l)"
| "build_registry e c (a # as) st l =
     (case register_attachment e c a st l of
        (Inl err, l') \<Rightarrow> (Inl err, l')
      | (Inr st', l') \<Rightarrow> build_registry e c as st' l')"

section \<open>The comment reconciler\<close>

text \<open>A \<^verbatim>\<open>for\<close> loop whose body may raise: the first failure ends the loop.\<close>

fun for_each :: "('a \<Rightarrow> 's \<Rightarrow> error + 's) \<Rightarrow> 'a list \<Rightarrow> 's \<Rightarrow> error + 's" where
  "for_each f [] s = Inr s"
| "for_each f (x # xs) s = (case f x s of Inl err \<Rightarrow> Inl err | Inr s' \<Rightarrow> for_each f xs s')"

text \<open>
  Description folding (models.py, 123-128). \<^verbatim>\<open>fields["long_desc"][0]\<close> raises
  \<^verbatim>\<open>IndexError\<close> on a bug without comments. The result is \<^verbatim>\<open>ext_description\<close> and
  the comment list after \<^verbatim>\<open>del fields["long_desc"][0]\<close>.
\<close>

definition ext_heading :: string where
  "ext_heading = [nl] @ ''## Extended Description '' @ [nl]"

definition fold_first_comment ::
  "env \<Rightarrow> string \<Rightarrow> comment_fields list \<Rightarrow> error + string \<times> comment_fields list" where
  "fold_first_comment e rep ld =
     (case ld of
        [] \<Rightarrow> Inl IndexError
      | first # rest \<Rightarrow>
          if rep = who first \<and> thetext first \<noteq> []
          then Inr (ext_heading @
                    str_join [nl, nl] (re_split_newlines e (needs_quoting (thetext first))), rest)
          else Inr ([], ld))"

text \<open>
  The body of the scan (models.py, 150-168) at index \<open>i\<close>, on the comment list and
  \<^verbatim>\<open>to_delete\<close>. \<^verbatim>\<open>attachment_id in attachments\<close> asks for a key of the dict.
\<close>

definition resolves :: "(int \<times> attachment_obj) list \<Rightarrow> int list \<Rightarrow> int \<Rightarrow> bool" where
  "resolves atts obs attachment_id =
     (attachment_id \<in> set (map fst atts) \<or> attachment_id \<in> set obs)"

definition scan_step ::
  "string \<Rightarrow> (int \<times> attachment_obj) list \<Rightarrow> int list \<Rightarrow> nat \<Rightarrow>
   comment_fields list \<times> nat list \<Rightarrow> error + comment_fields list \<times> nat list" where
  "scan_step rep atts obs i st =
     (case st of (ld, to_delete) \<Rightarrow>
        if i < length ld
        then (let comment = ld ! i;
                  attachment_id = parse_comment_text (thetext comment)
              in if truthy attachment_id
                 then (if who comment = rep
                       then (if resolves atts obs (int_of attachment_id)
                             then Inr (ld, to_delete @ [i])
                             else Inl (AttachmentMissing (int_of attachment_id) (thetext comment)))
                       else (if resolves atts obs (int_of attachment_id)
                             then Inr (ld[i := comment
                                         \<lparr>thetext := re_sub_announcement (thetext comment),
                                          attachid := Some (int_of attachment_id)\<rparr>], to_delete)
                             else Inl (AttachmentMissing (int_of attachment_id) (thetext comment))))
                 else Inr (ld, to_delete))
        else Inl IndexError)"

definition scan_comments ::
  "string \<Rightarrow> (int \<times> attachment_obj) list \<Rightarrow> int list \<Rightarrow> comment_fields list \<Rightarrow>
   error + comment_fields list \<times> nat list" where
  "scan_comments rep atts obs ld = for_each (scan_step rep atts obs) [0..<length ld] (ld, [])"

text \<open>\<^verbatim>\<open>for i in reversed(to_delete): del fields["long_desc"][i]\<close> (171-172).\<close>

definition del_at :: "nat \<Rightarrow> 'a list \<Rightarrow> error + 'a list" where
  "del_at i xs = (if i < length xs then Inr (take i xs @ drop (Suc i) xs) else Inl IndexError)"

definition delete_comments :: "nat list \<Rightarrow> comment_fields list \<Rightarrow> error + comment_fields list" where
  "delete_comments to_delete ld = for_each del_at (rev to_delete) ld"

text \<open>
  Comment reconciliation as a whole: the scan, then the deletions.
\<close>

definition reconcile_comments ::
  "string \<Rightarrow> (int \<times> attachment_obj) list \<Rightarrow> int list \<Rightarrow> comment_fields list \<Rightarrow>
   error + comment_fields list" where
  "reconcile_comments rep atts obs ld =
     (case scan_comments rep atts obs ld of
        Inl err \<Rightarrow> Inl err
      | Inr (ld', to_delete) \<Rightarrow> delete_comments to_delete ld')"

section \<open>The description\<close>

fun map_E :: "('a \<Rightarrow> error + 'b) \<Rightarrow> 'a list \<Rightarrow> error + 'b list" where
  "map_E f [] = Inr []"
| "map_E f (x # xs) =
     (case f x of
        Inl err \<Rightarrow> Inl err
      | Inr y \<Rightarrow> (case map_E f xs of Inl err \<Rightarrow> Inl err | Inr ys \<Rightarrow> Inr (y # ys)))"

text \<open>The rows of the table up to the architecture (models.py, 101-121).\<close>

definition table_rows :: "env \<Rightarrow> conf \<Rightarrow> bug_fields \<Rightarrow> error + string" where
  "table_rows e c flds =
     (let row = markdown_table_row e;
          d0 = row [] (Some []) @ row ''---'' (Some ''---'');
          link = bugzilla_base_url c @ ''/show_bug.cgi?id='' @ bug_id flds;
          d1 = (if include_bugzilla_link c
                then d0 @ row ''Bugzilla Link'' (Some (''['' @ bug_id flds @ '']('' @ link @ '')''))
                else d0)
      in case format_datetime e (creation_ts flds) (datetime_format_string c) of
           Inl msg \<Rightarrow> Inl (External msg)
         | Inr formatted_dt \<Rightarrow>
             (case (if resolution flds \<noteq> None \<and> resolution flds \<noteq> Some []
                    then (case format_datetime e (delta_ts flds) (datetime_format_string c) of
                            Inl msg \<Rightarrow> Inl (External msg)
                          | Inr resolved_dt \<Rightarrow>
                              Inr (d1 @ row ''Created on'' (Some formatted_dt)
                                   @ row ''Resolution'' (resolution flds)
                                   @ row ''Resolved on'' (Some resolved_dt)))
                    else Inr (d1 @ row ''Created on'' (Some formatted_dt))) of
                Inl err \<Rightarrow> Inl err
              | Inr d2 \<Rightarrow>
                  Inr (d2 @ row ''Version'' (version flds) @ row ''OS'' (op_sys flds)
                       @ row ''Architecture'' (rep_platform flds))))"

text \<open>The reporter row (models.py, 183-193), added when there is an extended description.\<close>

definition reporter_row :: "env \<Rightarrow> conf \<Rightarrow> string \<Rightarrow> string \<Rightarrow> error + string" where
  "reporter_row e c rep ext_description =
     (if rep = bugzilla_auto_reporter c
      then (case after_last ''Submitter was '' ext_description of
              None \<Rightarrow> Inr []
            | Some user_data \<Rightarrow> Inr (markdown_table_row e ''Reporter'' (Some (first_token user_data))))
      else (case lookup (bugzilla_users c) rep of
              Inl err \<Rightarrow> Inl err
            | Inr u \<Rightarrow>
                if u = gitlab_misc_user c
                then Inr (markdown_table_row e ''Reporter'' (Some rep)) else Inr []))"

text \<open>
  \<^verbatim>\<open>Issue.create_description\<close> (models.py, 94-197). It sets \<^verbatim>\<open>self.description\<close>,
  returns \<^verbatim>\<open>attachments\<close> and leaves the reconciled comments in
  \<^verbatim>\<open>fields["long_desc"]\<close>: the three components of the result.
\<close>

definition create_description ::
  "env \<Rightarrow> conf \<Rightarrow> bug_fields \<Rightarrow> log \<Rightarrow>
   (error + string \<times> (int \<times> attachment_obj) list \<times> bug_fields) \<times> log" where
  "create_description e c flds l =
     (case table_rows e c flds of
        Inl err \<Rightarrow> (Inl err, l)
      | Inr table \<Rightarrow>
     (case fold_first_comment e (reporter flds) (long_desc flds) of
        Inl err \<Rightarrow> (Inl err, l)
      | Inr (ext_description, ld1) \<Rightarrow>
     (case build_registry e c (attachment flds) empty_registry l of
        (Inl err, l') \<Rightarrow> (Inl err, l')
      | (Inr reg, l') \<Rightarrow>
     (case reconcile_comments (reporter flds) (attachments reg) (obsolete_attachments reg) ld1 of
        Inl err \<Rightarrow> (Inl err, l')
      | Inr ld2 \<Rightarrow>
     (case (if attachments reg \<noteq> []
            then (case map_E Attachment_str (map snd (attachments reg)) of
                    Inl err \<Rightarrow> Inl err
                  | Inr attachment_markdown \<Rightarrow>
                      Inr (table @ markdown_table_row e ''Attachments''
                                     (Some (str_join '', '' attachment_markdown))))
            else Inr table) of
        Inl err \<Rightarrow> (Inl err, l')
      | Inr d \<Rightarrow>
          if ext_description \<noteq> []
          then (case reporter_row e c (reporter flds) ext_description of
                  Inl err \<Rightarrow> (Inl err, l')
                | Inr r \<Rightarrow>
                    (Inr (d @ r @ ext_description, attachments reg, flds\<lparr>long_desc := ld2\<rparr>), l'))
          else (Inr (d, attachments reg, flds\<lparr>long_desc := ld2\<rparr>), l'))))))"

section \<open>Issues, comments and the thread\<close>

text \<open>\<^verbatim>\<open>validate_user\<close> (models.py, 332-335).\<close>

definition validate_user :: "conf \<Rightarrow> string \<Rightarrow> error + unit" where
  "validate_user c bugzilla_user =
     (if bugzilla_users c bugzilla_user = None then Inl (UserNotFound bugzilla_user) else Inr ())"

text \<open>\<^verbatim>\<open>conf.gitlab_users[conf.bugzilla_users[user]]\<close>.\<close>

definition gitlab_user_of :: "conf \<Rightarrow> string \<Rightarrow> error + string" where
  "gitlab_user_of c user =
     (case lookup (bugzilla_users c) user of
        Inl err \<Rightarrow> Inl err
      | Inr u \<Rightarrow> lookup (gitlab_users c) u)"

text \<open>\<^verbatim>\<open>Issue.create_labels\<close> (75-92).\<close>

definition create_labels :: "conf \<Rightarrow> string \<Rightarrow> string option \<Rightarrow> string" where
  "create_labels c cmpnt operating_system =
     (let labels0 = (if default_gitlab_labels c \<noteq> [] then default_gitlab_labels c else []);
          labels1 = (case component_mappings c cmpnt of
                       None \<Rightarrow> labels0
                     | Some component_label \<Rightarrow>
                         if component_label \<noteq> [] then labels0 @ [component_label] else labels0);
          labels2 = (case operating_system of
                       None \<Rightarrow> labels1
                     | Some os \<Rightarrow> if os \<noteq> [] \<and> os \<noteq> ''Other'' then labels1 @ [os] else labels1)
      in str_join '','' labels2)"

text \<open>
  \<^verbatim>\<open>Issue.load_fields\<close> (66-73) and \<^verbatim>\<open>Issue.__init__\<close> (60-64). The second component
  of the result is the bug record as the constructor leaves it.
\<close>

definition Issue_load_fields ::
  "env \<Rightarrow> conf \<Rightarrow> bug_fields \<Rightarrow> log \<Rightarrow> (error + issue \<times> bug_fields) \<times> log" where
  "Issue_load_fields e c flds l =
     (case isoformat e (creation_ts flds) of
        Inl msg \<Rightarrow> (Inl (External msg), l)
      | Inr created \<Rightarrow>
     (case gitlab_user_of c (reporter flds) of
        Inl err \<Rightarrow> (Inl err, l)
      | Inr sudo \<Rightarrow>
     (case gitlab_user_of c (assigned_to flds) of
        Inl err \<Rightarrow> (Inl err, l)
      | Inr assignee \<Rightarrow>
     (case create_description e c flds l of
        (Inl err, l') \<Rightarrow> (Inl err, l')
      | (Inr (descr, atts, flds'), l') \<Rightarrow>
          (Inr (\<lparr>i_headers = default_headers c, i_created_at = created,
                  title = short_desc flds, i_sudo = sudo, assignee_id = assignee,
                  status = bug_status flds,
                  labels = create_labels c (component flds) (op_sys flds),
                  description = descr, i_attachments = atts, i_id = None, iid = None\<rparr>,
                flds'), l')))))"

definition Issue_init ::
  "env \<Rightarrow> conf \<Rightarrow> bug_fields \<Rightarrow> log \<Rightarrow> (error + issue \<times> bug_fields) \<times> log" where
  "Issue_init e c flds l =
     (case validate_user c (reporter flds) of
        Inl err \<Rightarrow> (Inl err, l)
      | Inr _ \<Rightarrow>
     (case validate_user c (assigned_to flds) of
        Inl err \<Rightarrow> (Inl err, l)
      | Inr _ \<Rightarrow> Issue_load_fields e c flds l))"

text \<open>\<^verbatim>\<open>Comment.load_fields\<close> (256-272) and \<^verbatim>\<open>Comment.__init__\<close> (250-254).\<close>

definition Comment_load_fields ::
  "env \<Rightarrow> conf \<Rightarrow> comment_fields \<Rightarrow> (int \<times> attachment_obj) list \<Rightarrow> error + comment" where
  "Comment_load_fields e c f atts =
     (case gitlab_user_of c (who f) of
        Inl err \<Rightarrow> Inl err
      | Inr sudo \<Rightarrow>
     (case lookup (bugzilla_users c) (who f) of
        Inl err \<Rightarrow> Inl err
      | Inr u \<Rightarrow>
     (case isoformat e (bug_when f) of
        Inl msg \<Rightarrow> Inl (External msg)
      | Inr created \<Rightarrow>
     (case (case attachid f of
              None \<Rightarrow> Inr []
            | Some attachment_id \<Rightarrow>
                if attachment_id \<noteq> 0
                then (case map_of atts attachment_id of
                        None \<Rightarrow> Inl (KeyError (str_int attachment_id))
                      | Some a \<Rightarrow>
                          (case Attachment_str a of
                             Inl err \<Rightarrow> Inl err
                           | Inr attachment_markdown \<Rightarrow> Inr (attachment_markdown @ [nl])))
                else Inr []) of
        Inl err \<Rightarrow> Inl err
      | Inr m \<Rightarrow>
          Inr \<lparr>c_headers = default_headers c, c_attachments = atts, c_sudo = sudo,
               body = (if u = gitlab_misc_user c then ''By '' @ who f @ [nl, nl] else [])
                      @ m @ needs_quoting (thetext f),
               c_created_at = created, issue_id = None\<rparr>))))"

definition Comment_init ::
  "env \<Rightarrow> conf \<Rightarrow> comment_fields \<Rightarrow> (int \<times> attachment_obj) list \<Rightarrow> error + comment" where
  "Comment_init e c f atts =
     (case validate_user c (who f) of
        Inl err \<Rightarrow> Inl err
      | Inr _ \<Rightarrow> Comment_load_fields e c f atts)"

text \<open>
  \<^verbatim>\<open>IssueThread.load_objects\<close> (18-34): the issue, then one comment object for every
  entry of the reconciled \<^verbatim>\<open>fields["long_desc"]\<close> whose text is not empty.
\<close>

definition load_comment ::
  "env \<Rightarrow> conf \<Rightarrow> (int \<times> attachment_obj) list \<Rightarrow> comment_fields \<Rightarrow> comment list \<Rightarrow>
   error + comment list" where
  "load_comment e c atts comment_fields comments =
     (if thetext comment_fields \<noteq> []
      then (case Comment_init e c comment_fields atts of
              Inl err \<Rightarrow> Inl err
            | Inr cm \<Rightarrow> Inr (comments @ [cm]))
      else Inr comments)"

definition load_objects ::
  "env \<Rightarrow> conf \<Rightarrow> bug_fields \<Rightarrow> log \<Rightarrow> (error + issue_thread) \<times> log" where
  "load_objects e c flds l =
     (case Issue_init e c flds l of
        (Inl err, l') \<Rightarrow> (Inl err, l')
      | (Inr (iss, flds'), l') \<Rightarrow>
          (case for_each (load_comment e c (i_attachments iss)) (long_desc flds') [] of
             Inl err \<Rightarrow> (Inl err, l')
           | Inr cs \<Rightarrow> (Inr \<lparr>t_issue = iss, t_comments = cs\<rparr>, l')))"

section \<open>Saving\<close>

text \<open>\<^verbatim>\<open>set_user_isadmin\<close> (337-343): a request without \<^verbatim>\<open>dry_run\<close>.\<close>

definition admin_request :: "conf \<Rightarrow> string \<Rightarrow> string \<Rightarrow> string \<Rightarrow> request" where
  "admin_request c private_token user_id state =
     \<lparr>req_url = gitlab_base_url c @ ''/users/'' @ user_id, req_method = ''put'',
      req_headers = [(''private-token'', private_token)], req_data = [(''admin'', state)],
      req_files = None, req_json = None, req_dry_run = None\<rparr>"

definition set_user_isadmin ::
  "env \<Rightarrow> conf \<Rightarrow> string \<Rightarrow> string \<Rightarrow> string \<Rightarrow> log \<Rightarrow> (error + response) \<times> log" where
  "set_user_isadmin e c private_token user_id state l =
     perform_request e (admin_request c private_token user_id state) l"

text \<open>
  The guarded call that stands before and after each submission (208-209, 218-219, 282-283,
  292-293):
  \<^verbatim>\<open>if not conf.gitlab_user_admins[self.sudo]: set_user_isadmin(self.headers["private-token"], self.sudo, state)\<close>.
\<close>

definition elevate ::
  "env \<Rightarrow> conf \<Rightarrow> string dict \<Rightarrow> string \<Rightarrow> string \<Rightarrow> log \<Rightarrow> (error + unit) \<times> log" where
  "elevate e c hdrs sudo state l =
     (case lookup (gitlab_user_admins c) sudo of
        Inl err \<Rightarrow> (Inl err, l)
      | Inr is_admin \<Rightarrow>
          if \<not> is_admin
          then (case subscript hdrs ''private-token'' of
                  Inl err \<Rightarrow> (Inl err, l)
                | Inr private_token \<Rightarrow>
                    (case set_user_isadmin e c private_token sudo state l of
                       (Inl err, l') \<Rightarrow> (Inl err, l')
                     | (Inr _, l') \<Rightarrow> (Inr (), l')))
          else (Inr (), l))"

text \<open>\<^verbatim>\<open>Issue.validate\<close> (199-204): the required fields in their order.\<close>

definition Issue_validate :: "issue \<Rightarrow> error + unit" where
  "Issue_validate iss =
     (if title iss = [] then Inl (MissingField ''title'')
      else if description iss = [] then Inl (MissingField ''description'')
      else if status iss = [] then Inl (MissingField ''status'')
      else Inr ())"

text \<open>
  \<^verbatim>\<open>Issue.save\<close> (206-228). The payload holds the attributes named in \<^verbatim>\<open>data_fields\<close>,
  in the order the constructor set them.
\<close>

definition issue_request :: "conf \<Rightarrow> issue \<Rightarrow> request" where
  "issue_request c iss =
     \<lparr>req_url = gitlab_base_url c @ ''/projects/'' @ gitlab_project_id c @ ''/issues'',
      req_method = ''post'',
      req_headers = AList.update ''sudo'' (i_sudo iss) (i_headers iss),
      req_data = [(''created_at'', i_created_at iss), (''title'', title iss),
                  (''assignee_id'', assignee_id iss), (''status'', status iss),
                  (''labels'', labels iss), (''description'', description iss)],
      req_files = None, req_json = Some True, req_dry_run = Some (dry_run c)\<rparr>"

definition Issue_save :: "env \<Rightarrow> conf \<Rightarrow> issue \<Rightarrow> log \<Rightarrow> (error + issue) \<times> log" where
  "Issue_save e c iss l =
     (case Issue_validate iss of
        Inl err \<Rightarrow> (Inl err, l)
      | Inr _ \<Rightarrow>
     (case elevate e c (i_headers iss) (i_sudo iss) ''true'' l of
        (Inl err, l1) \<Rightarrow> (Inl err, l1)
      | (Inr _, l1) \<Rightarrow>
     (case perform_request e (issue_request c iss) l1 of
        (Inl err, l2) \<Rightarrow> (Inl err, l2)
      | (Inr resp, l2) \<Rightarrow>
     (case elevate e c (req_headers (issue_request c iss)) (i_sudo iss) ''false'' l2 of
        (Inl err, l3) \<Rightarrow> (Inl err, l3)
      | (Inr _, l3) \<Rightarrow>
          if dry_run c
          then (Inr (iss\<lparr>i_headers := req_headers (issue_request c iss),
                         i_id := Some (PyInt 5), iid := Some (PyInt 50)\<rparr>), l3)
          else (case subscript (json resp) ''iid'' of
                  Inl err \<Rightarrow> (Inl err, l3)
                | Inr v \<Rightarrow>
                    (case subscript (json resp) ''id'' of
                       Inl err \<Rightarrow> (Inl err, l3)
                     | Inr w \<Rightarrow>
                         (Inr (iss\<lparr>i_headers := req_headers (issue_request c iss),
                                   i_id := Some w, iid := Some v\<rparr>), l3)))))))"

text \<open>\<^verbatim>\<open>Issue.close\<close> (231-239): the close directive.\<close>

definition close_request :: "conf \<Rightarrow> issue \<Rightarrow> py_value \<Rightarrow> request" where
  "close_request c iss n =
     \<lparr>req_url = gitlab_base_url c @ ''/projects/'' @ gitlab_project_id c @ ''/issues/''
                @ py_format n,
      req_method = ''put'',
      req_headers = AList.update ''sudo'' (i_sudo iss) (i_headers iss),
      req_data = [(''state_event'', ''close'')],
      req_files = None, req_json = None, req_dry_run = Some (dry_run c)\<rparr>"

definition Issue_close :: "env \<Rightarrow> conf \<Rightarrow> issue \<Rightarrow> log \<Rightarrow> (error + issue) \<times> log" where
  "Issue_close e c iss l =
     (case iid iss of
        None \<Rightarrow> (Inl (AttributeError ''iid''), l)
      | Some n \<Rightarrow>
          (case perform_request e (close_request c iss n) l of
             (Inl err, l') \<Rightarrow> (Inl err, l')
           | (Inr _, l') \<Rightarrow>
               (Inr (iss\<lparr>i_headers := req_headers (close_request c iss n)\<rparr>), l')))"

text \<open>\<^verbatim>\<open>Comment.validate\<close> (274-278) and \<^verbatim>\<open>Comment.save\<close> (280-293).\<close>

definition Comment_validate :: "comment \<Rightarrow> error + py_value" where
  "Comment_validate cm =
     (if body cm = [] then Inl (MissingField ''body'')
      else (case issue_id cm of
              None \<Rightarrow> Inl (AttributeError ''issue_id'')
            | Some n \<Rightarrow> if \<not> truthy n then Inl (MissingField ''issue_id'') else Inr n))"

definition comment_request :: "conf \<Rightarrow> comment \<Rightarrow> py_value \<Rightarrow> request" where
  "comment_request c cm n =
     \<lparr>req_url = gitlab_base_url c @ ''/projects/'' @ gitlab_project_id c @ ''/issues/''
                @ py_format n @ ''/notes'',
      req_method = ''post'',
      req_headers = AList.update ''sudo'' (c_sudo cm) (c_headers cm),
      req_data = [(''body'', body cm), (''created_at'', c_created_at cm)],
      req_files = None, req_json = Some True, req_dry_run = Some (dry_run c)\<rparr>"

definition Comment_save :: "env \<Rightarrow> conf \<Rightarrow> comment \<Rightarrow> log \<Rightarrow> (error + comment) \<times> log" where
  "Comment_save e c cm l =
     (case Comment_validate cm of
        Inl err \<Rightarrow> (Inl err, l)
      | Inr n \<Rightarrow>
     (case elevate e c (c_headers cm) (c_sudo cm) ''true'' l of
        (Inl err, l1) \<Rightarrow> (Inl err, l1)
      | (Inr _, l1) \<Rightarrow>
     (case perform_request e (comment_request c cm n) l1 of
        (Inl err, l2) \<Rightarrow> (Inl err, l2)
      | (Inr _, l2) \<Rightarrow>
     (case elevate e c (req_headers (comment_request c cm n)) (c_sudo cm) ''false'' l2 of
        (Inl err, l3) \<Rightarrow> (Inl err, l3)
      | (Inr _, l3) \<Rightarrow>
          (Inr (cm\<lparr>c_headers := req_headers (comment_request c cm n)\<rparr>), l3)))))"

text \<open>
  \<^verbatim>\<open>IssueThread.save\<close> (36-49): the issue, then every comment in the order of the list, each
  bound to the issue's \<^verbatim>\<open>iid\<close> first, then the close directive when the status is
  \<^verbatim>\<open>RESOLVED\<close>.
\<close>

fun save_comments ::
  "env \<Rightarrow> conf \<Rightarrow> py_value option \<Rightarrow> comment list \<Rightarrow> log \<Rightarrow> (error + comment list) \<times> log" where
  "save_comments e c n [] l = (Inr [], l)"
| "save_comments e c n (cm # cms) l =
     (case Comment_save e c (cm\<lparr>issue_id := n\<rparr>) l of
        (Inl err, l') \<Rightarrow> (Inl err, l')
      | (Inr cm', l') \<Rightarrow>
          (case save_comments e c n cms l' of
             (Inl err, l'') \<Rightarrow> (Inl err, l'')
           | (Inr cms', l'') \<Rightarrow> (Inr (cm' # cms'), l'')))"

definition IssueThread_save ::
  "env \<Rightarrow> conf \<Rightarrow> issue_thread \<Rightarrow> log \<Rightarrow> (error + issue_thread) \<times> log" where
  "IssueThread_save e c t l =
     (case Issue_save e c (t_issue t) l of
        (Inl err, l1) \<Rightarrow> (Inl err, l1)
      | (Inr iss, l1) \<Rightarrow>
     (case save_comments e c (iid iss) (t_comments t) l1 of
        (Inl err, l2) \<Rightarrow> (Inl err, l2)
      | (Inr cms, l2) \<Rightarrow>
          if status iss = ''RESOLVED''
          then (case Issue_close e c iss l2 of
                  (Inl err, l3) \<Rightarrow> (Inl err, l3)
                | (Inr iss', l3) \<Rightarrow> (Inr \<lparr>t_issue = iss', t_comments = cms\<rparr>, l3))
          else (Inr \<lparr>t_issue = iss, t_comments = cms\<rparr>, l2)))"

section \<open>Reconciliation, one comment at a time\<close>

text \<open>
  What the scan and the deletions together do to a single comment: it is removed
  (\<open>Inr None\<close>), kept as it is or rewritten (\<open>Inr (Some _)\<close>), or the reconciliation
  fails on it. \<open>reconcile_list\<close> applies this to a comment list from left to right. The
  index loops above are proved to compute it (lemma \<open>reconcile_comments_list\<close>).
\<close>

definition reconcile_one ::
  "string \<Rightarrow> (int \<times> attachment_obj) list \<Rightarrow> int list \<Rightarrow> comment_fields \<Rightarrow>
   error + comment_fields option" where
  "reconcile_one rep atts obs cm =
     (let attachment_id = parse_comment_text (thetext cm)
      in if truthy attachment_id
         then (if resolves atts obs (int_of attachment_id)
               then (if who cm = rep then Inr None
                     else Inr (Some (cm\<lparr>thetext := re_sub_announcement (thetext cm),
                                          attachid := Some (int_of attachment_id)\<rparr>)))
               else Inl (AttachmentMissing (int_of attachment_id) (thetext cm)))
         else Inr (Some cm))"

fun reconcile_list ::
  "string \<Rightarrow> (int \<times> attachment_obj) list \<Rightarrow> int list \<Rightarrow> comment_fields list \<Rightarrow>
   error + comment_fields list" where
  "reconcile_list rep atts obs [] = Inr []"
| "reconcile_list rep atts obs (cm # cms) =
     (case reconcile_one rep atts obs cm of
        Inl err \<Rightarrow> Inl err
      | Inr v \<Rightarrow>
          (case reconcile_list rep atts obs cms of
             Inl err \<Rightarrow> Inl err
           | Inr out \<Rightarrow> Inr ((case v of None \<Rightarrow> [] | Some cm' \<Rightarrow> [cm']) @ out)))"

text \<open>
  The state of the scan after a comment list: the list with the rewritten texts and the
  positions marked for deletion, counted from the start of the list.
\<close>

fun scan_list ::
  "string \<Rightarrow> (int \<times> attachment_obj) list \<Rightarrow> int list \<Rightarrow> comment_fields list \<Rightarrow>
   error + comment_fields list \<times> nat list" where
  "scan_list rep atts obs [] = Inr ([], [])"
| "scan_list rep atts obs (cm # cms) =
     (case reconcile_one rep atts obs cm of
        Inl err \<Rightarrow> Inl err
      | Inr v \<Rightarrow>
          (case scan_list rep atts obs cms of
             Inl err \<Rightarrow> Inl err
           | Inr (cms', ds) \<Rightarrow>
               Inr ((case v of None \<Rightarrow> cm | Some cm' \<Rightarrow> cm') # cms',
                    (case v of None \<Rightarrow> [0] | Some _ \<Rightarrow> []) @ map Suc ds)))"

section \<open>Reading the call log\<close>

text \<open>
  The submissions in a log are its \<^verbatim>\<open>post\<close> requests (the issue, the notes, the
  uploads); the close directive is the request whose payload is
  \<^verbatim>\<open>{"state_event": "close"}\<close>.
\<close>

definition is_post :: "request \<Rightarrow> bool" where
  "is_post r = (req_method r = ''post'')"

definition is_close :: "request \<Rightarrow> bool" where
  "is_close r = (req_data r = [(''state_event'', ''close'')])"

section \<open>Sample data\<close>

text \<open>
  A concrete environment, configuration and bug records for the instances below. The
  remote service answers every request with the same response; the table row is
  \<^verbatim>\<open>| key | value |\<close> on a line of its own; dates are passed through. \<open>env0\<close> is an
  interpreter from Python 3.7 on, \<open>env_legacy\<close> an earlier one. \<open>conf0\<close> is a dry run.
\<close>

definition env0 :: env where
  "env0 = \<lparr>backend = (\<lambda>h r. Inr \<lparr>content = ''bytes'',
                                    json = [(''markdown'', PyStr ''![f](/uploads/f)''),
                                            (''iid'', PyInt 3), (''id'', PyInt 30)]\<rparr>),
            markdown_table_row = (\<lambda>k v. ''| '' @ k @ '' | '' @
                                   (case v of None \<Rightarrow> ''None'' | Some x \<Rightarrow> x) @ '' |'' @ [nl]),
            format_datetime = (\<lambda>ts fmt. Inr ts),
            isoformat = (\<lambda>ts. Inr ts),
            empty_match_splits = True\<rparr>"

definition env_legacy :: env where
  "env_legacy = env0\<lparr>empty_match_splits := False\<rparr>"

definition conf0 :: conf where
  "conf0 = \<lparr>default_headers = [(''private-token'', ''SECRET'')], dry_run = True,
             bugzilla_users = [''alice'' \<mapsto> ''alice_gl'', ''bob'' \<mapsto> ''bob_gl''],
             gitlab_users = [''alice_gl'' \<mapsto> ''11'', ''bob_gl'' \<mapsto> ''12''],
             gitlab_user_admins = [''11'' \<mapsto> True, ''12'' \<mapsto> False],
             gitlab_misc_user = ''misc'', bugzilla_auto_reporter = ''auto'',
             include_bugzilla_link = False,
             bugzilla_base_url = ''https://bz'', gitlab_base_url = ''https://gl'',
             gitlab_project_id = ''1'', datetime_format_string = ''%Y'',
             default_gitlab_labels = [], component_mappings = Map.empty\<rparr>"

definition announce :: "string \<Rightarrow> string \<Rightarrow> comment_fields" where
  "announce author txt = \<lparr>who = author, bug_when = ''2019-01-02'', thetext = txt, attachid = None\<rparr>"

definition raw_attachment :: "int \<Rightarrow> string \<Rightarrow> bool \<Rightarrow> attachment_fields" where
  "raw_attachment n fname obsolete =
     \<lparr>a_attachid = n, a_filename = fname, a_isobsolete = obsolete\<rparr>"

definition bug0 :: "comment_fields list \<Rightarrow> attachment_fields list \<Rightarrow> bug_fields" where
  "bug0 comments atts =
     \<lparr>bug_id = ''42'', short_desc = ''Crash on start'', reporter = ''alice'',
      assigned_to = ''bob'', bug_status = ''RESOLVED'', component = ''core'',
      op_sys = Some ''Linux'', creation_ts = ''2019-01-01'', resolution = None,
      delta_ts = ''2019-01-03'', version = Some ''1.0'', rep_platform = Some ''PC'',
      long_desc = comments, attachment = atts\<rparr>"

definition att0 :: "int \<Rightarrow> string \<Rightarrow> attachment_obj" where
  "att0 n fname =
     \<lparr>att_id = n, att_filename = fname, att_headers = [(''private-token'', ''SECRET'')],
      markdown = PyStr (''[attachment]('' @ fname @ '')'')\<rparr>"

definition issue0 :: issue where
  "issue0 = \<lparr>i_headers = [(''private-token'', ''SECRET'')], i_created_at = ''2019-01-01'',
              title = ''Crash on start'', i_sudo = ''11'', assignee_id = ''12'',
              status = ''RESOLVED'', labels = ''Linux'', description = ''| Version | 1.0 |'',
              i_attachments = [], i_id = None, iid = None\<rparr>"

definition comment0 :: comment where
  "comment0 = \<lparr>c_headers = [(''private-token'', ''SECRET'')], c_attachments = [],
                c_sudo = ''12'', body = ''It crashes here too'', c_created_at = ''2019-01-02'',
                issue_id = None\<rparr>"

definition thread0 :: issue_thread where
  "thread0 = \<lparr>t_issue = issue0, t_comments = [comment0]\<rparr>"

section \<open>Properties of the sanitizer\<close>

lemma needs_quoting_wrapped_again:
  "needs_quoting (''<pre>'' @ txt @ ''</pre>'') = ''<pre><pre>'' @ txt @ ''</pre></pre>''"
  by (simp add: needs_quoting_def)

lemma needs_quoting_cases:
  "needs_quoting txt = txt \<or> needs_quoting txt = ''<pre>'' @ txt @ ''</pre>''"
  by (simp add: needs_quoting_def)

text \<open>
  C8. Sanitizer contract: a text that contains one of the nine characters
  \<^verbatim>\<open>#\<close>, greater-than, \<^verbatim>\<open>_ - ~ | * + @\<close>, or more than one equals sign, comes back
  whole between the opening and the closing \<^verbatim>\<open>pre\<close> tag, once; every other text
  comes back as it is. The function is pure: it has no state to change.
\<close>

theorem needs_quoting_contract:
  "needs_quoting txt =
     (if (\<exists>c \<in> set ''#>_-~|*+@''. c \<in> set txt) \<or> 1 < count_list txt CHR ''=''
      then ''<pre>'' @ txt @ ''</pre>'' else txt)"
  by (simp add: needs_quoting_def)

theorem needs_quoting_contract_witness:
  "needs_quoting ''a-b'' = ''<pre>a-b</pre>'' \<and> needs_quoting ''x=1, y=2'' = ''<pre>x=1, y=2</pre>''
   \<and> needs_quoting ''x=1'' = ''x=1''"
  using needs_quoting_contract [of "''a-b''"] needs_quoting_contract [of "''x=1, y=2''"]
    needs_quoting_contract [of "''x=1''"]
  by simp

text \<open>
  C3 (as amended). The sanitizer is idempotent only on the texts it leaves alone. The
  tags it adds contain a greater-than sign, which is one of its trigger characters, so a
  text that it wraps is wrapped a second time when sanitized again: the result is the
  nested block, and applying the sanitizer twice equals applying it once exactly when the
  first application changed nothing.
\<close>

theorem needs_quoting_twice:
  "(needs_quoting (needs_quoting x) = needs_quoting x \<longleftrightarrow> needs_quoting x = x) \<and>
   (needs_quoting x \<noteq> x \<longrightarrow>
      needs_quoting (needs_quoting x) = ''<pre><pre>'' @ x @ ''</pre></pre>'')"
  using needs_quoting_cases [of x] needs_quoting_wrapped_again [of x]
  by auto

theorem needs_quoting_twice_witness:
  "needs_quoting ''#'' \<noteq> ''#'' \<and> needs_quoting (needs_quoting ''#'') = ''<pre><pre>#</pre></pre>''
   \<and> needs_quoting (needs_quoting ''#'') \<noteq> needs_quoting ''#''"
  using needs_quoting_twice [of "''#''"]
  by (simp add: needs_quoting_def)

theorem needs_quoting_nested_counterexample:
  "needs_quoting ''#'' = ''<pre>#</pre>'' \<and>
   needs_quoting (needs_quoting ''#'') = ''<pre><pre>#</pre></pre>''"
  by (simp add: needs_quoting_def)

end
